theory Spec2Isabelle
  imports Complex_Main "HOL-Library.Word" "HOL-Library.Signed_Division"
begin

section \<open>The camera sensor node: \<^verbatim>\<open>nv::SensorCamera\<close> of camera.cpp\<close>

text \<open>
  The class drives one hardware camera through the DriveWorks SDK and publishes every
  frame as a ROS image. The SDK is outside the program: each call into it is recorded as
  an event of a trace, together with the status it returned, and the statuses themselves
  are inputs (an environment record per call of \<open>start\<close> and per iteration of the
  acquisition loop). Logging (\<open>ROS_INFO\<close>, \<open>ROS_WARN\<close>, \<open>ROS_ERROR\<close>,
  \<open>ROS_DEBUG\<close>) has no effect on control flow and is left out of the trace.
\<close>

subsection \<open>Status codes, handles, resources\<close>

text \<open>
  \<open>dwStatus\<close> is an enumeration of the SDK. The source names four of its values; every
  other enumerator is \<open>DW_STATUS_OTHER n\<close>.
\<close>

datatype dwStatus =
    DW_SUCCESS
  | DW_END_OF_STREAM
  | DW_TIME_OUT
  | DW_NOT_READY
  | DW_STATUS_OTHER nat

text \<open>
  The handles the object holds are opaque pointers. The code only ever tests them against
  null, so a handle is either null or not. Releasing a handle does not reset the member:
  it stays non-null (and dangling).
\<close>

datatype handle = DW_NULL_HANDLE | NonNull

text \<open>The two device image buffers the object owns.\<close>

datatype image_slot = RgbaFrame | ImageResized

text \<open>The ways a call can end without returning: the \<open>std::runtime_error\<close> thrown by
  \<open>CHECK_DW_ERROR\<close>, \<open>std::terminate\<close> (a thread object assigned while still joinable),
  and the undefined behaviour of a float-to-integer conversion whose value does not fit.\<close>

datatype error = Runtime_error | Terminate | Undefined_behaviour

subsection \<open>The shrink factor: IEEE 754 binary32\<close>

text \<open>
  \<open>m_shrinkFactor\<close> is a C++ \<open>float\<close>. A float is NaN, an infinity with its sign, or a
  finite value with its sign and its magnitude (a rational; the sign is kept apart so that
  the two zeros are distinct).
\<close>

datatype f32 = F32_NaN | F32_Inf bool | F32_Fin bool rat

text \<open>The number of binary digits of a natural number.\<close>

fun bitlen :: "nat \<Rightarrow> nat" where
  "bitlen n = (if n = 0 then 0 else Suc (bitlen (n div 2)))"

declare bitlen.simps [simp del]

text \<open>\<open>ilog2 x\<close> is the exponent \<open>e\<close> with \<open>2^e \<le> x < 2^(e+1)\<close>, for \<open>x > 0\<close>.\<close>

definition ilog2 :: "rat \<Rightarrow> int" where
  "ilog2 x =
     (if 1 \<le> x then int (bitlen (nat \<lfloor>x\<rfloor>)) - 1
      else - int (bitlen (nat (\<lceil>1 / x\<rceil> - 1))))"

definition pow2 :: "int \<Rightarrow> rat" where
  "pow2 k = (if 0 \<le> k then 2 ^ nat k else 1 / 2 ^ nat (- k))"

text \<open>Round to the nearest integer, ties to even.\<close>

definition round_half_even :: "rat \<Rightarrow> int" where
  "round_half_even r =
     (let n = \<lfloor>r\<rfloor>; d = r - of_int n
      in if d < 1 / 2 then n
         else if 1 / 2 < d then n + 1
         else if even n then n else n + 1)"

text \<open>
  The binary32 value nearest to a non-negative rational: 24 significant bits, the least
  exponent of a unit in the last place is \<open>-149\<close> (subnormals), and a result of \<open>2^128\<close> or
  more overflows to infinity.
\<close>

definition f32_round :: "bool \<Rightarrow> rat \<Rightarrow> f32" where
  "f32_round sign x =
     (if x = 0 then F32_Fin sign 0
      else
        let q = max (ilog2 x - 23) (- 149);
            y = of_int (round_half_even (x / pow2 q)) * pow2 q
        in if 2 ^ 128 \<le> y then F32_Inf sign else F32_Fin sign y)"

text \<open>A value of the type: its magnitude is non-negative and is its own rounding.\<close>

fun f32_valid :: "f32 \<Rightarrow> bool" where
  "f32_valid F32_NaN = True"
| "f32_valid (F32_Inf _) = True"
| "f32_valid (F32_Fin sign x) = (0 \<le> x \<and> f32_round sign x = F32_Fin sign x)"

definition f32_one :: f32 where
  "f32_one = F32_Fin False 1"

text \<open>The comparison \<open>a > b\<close>: false as soon as one side is NaN; the zeros are equal.\<close>

fun f32_gt :: "f32 \<Rightarrow> f32 \<Rightarrow> bool" where
  "f32_gt F32_NaN _ = False"
| "f32_gt _ F32_NaN = False"
| "f32_gt (F32_Inf sa) (F32_Inf sb) = (\<not> sa \<and> sb)"
| "f32_gt (F32_Inf sa) (F32_Fin _ _) = (\<not> sa)"
| "f32_gt (F32_Fin _ _) (F32_Inf sb) = sb"
| "f32_gt (F32_Fin sa x) (F32_Fin sb y) =
     ((if sb then - y else y) < (if sa then - x else x))"

text \<open>The conversion of a 32-bit unsigned integer to float (round to nearest).\<close>

definition u32_to_f32 :: "32 word \<Rightarrow> f32" where
  "u32_to_f32 w = f32_round False (of_nat (unat w))"

text \<open>The division \<open>a / b\<close> of IEEE 754.\<close>

fun f32_div :: "f32 \<Rightarrow> f32 \<Rightarrow> f32" where
  "f32_div F32_NaN _ = F32_NaN"
| "f32_div _ F32_NaN = F32_NaN"
| "f32_div (F32_Inf _) (F32_Inf _) = F32_NaN"
| "f32_div (F32_Inf sa) (F32_Fin sb _) = F32_Inf (sa \<noteq> sb)"
| "f32_div (F32_Fin sa _) (F32_Inf sb) = F32_Fin (sa \<noteq> sb) 0"
| "f32_div (F32_Fin sa x) (F32_Fin sb y) =
     (if y = 0 then (if x = 0 then F32_NaN else F32_Inf (sa \<noteq> sb))
      else f32_round (sa \<noteq> sb) (x / y))"

text \<open>
  The conversion of a float to a 32-bit unsigned integer truncates towards zero; the
  behaviour is undefined (\<open>None\<close>) when the truncated value is not a value of the type.
\<close>

fun f32_to_u32 :: "f32 \<Rightarrow> 32 word option" where
  "f32_to_u32 F32_NaN = None"
| "f32_to_u32 (F32_Inf _) = None"
| "f32_to_u32 (F32_Fin sign x) =
     (if sign \<and> 1 \<le> x then None
      else if sign then Some 0
      else if 2 ^ 32 \<le> x then None
      else Some (word_of_int \<lfloor>x\<rfloor>))"

text \<open>\<open>d /= factor\<close> on a \<open>uint32_t d\<close> and a \<open>float factor\<close>: the integer is converted
  to float, the division is the float one, and the quotient is converted back.\<close>

definition shrink_dim :: "32 word \<Rightarrow> f32 \<Rightarrow> 32 word option" where
  "shrink_dim d factor = f32_to_u32 (f32_div (u32_to_f32 d) factor)"

subsection \<open>The published message\<close>

text \<open>
  The fields of \<open>sensor_msgs::Image\<close> the code writes; all the integers are \<open>uint32_t\<close>
  (the two fields of the stamp are printed with \<open>%u\<close> on line 279). The pixel payload
  (\<open>step * height\<close> bytes copied from the received buffer) is left out.
\<close>

record Image =
  header_seq :: "32 word"
  header_stamp_sec :: "32 word"
  header_stamp_nsec :: "32 word"
  header_frame_id :: string
  encoding :: string
  height :: "32 word"
  width :: "32 word"
  step :: "32 word"

text \<open>\<open>sensor_msgs::image_encodings::RGBA8\<close>.\<close>

definition RGBA8 :: string where
  "RGBA8 = ''rgba8''"

text \<open>\<open>sensor_msgs::fillImage(image, encoding, rows, cols, step, data)\<close>.\<close>

definition fillImage :: "Image \<Rightarrow> string \<Rightarrow> 32 word \<Rightarrow> 32 word \<Rightarrow> 32 word \<Rightarrow> Image" where
  "fillImage img encoding_arg rows_arg cols_arg step_arg =
     img\<lparr>encoding := encoding_arg, height := rows_arg, width := cols_arg, step := step_arg\<rparr>"

subsection \<open>Events\<close>

text \<open>
  One event per call that leaves the object: the SDK functions by their names, with the
  status returned where the SDK returns one, the two thread operations, and the publish.
  \<open>dwImage_create\<close> carries the buffer it fills and the width and height asked for;
  \<open>dwImageStreamer_initialize\<close> the width and height of the registered format;
  \<open>dwImageStreamer_producerSend\<close> the buffer sent.
\<close>

datatype sdk_call =
    dwSAL_createSensor dwStatus
  | dwSensorCamera_getImageProperties dwStatus
  | dwImage_create image_slot "32 word" "32 word" dwStatus
  | dwImageTransformation_initialize dwStatus
  | dwImageTransformation_setBorderMode
  | dwImageTransformation_setInterpolationMode
  | dwImageStreamer_initialize "32 word" "32 word" dwStatus
  | dwSensor_start dwStatus
  | dwSAL_releaseSensor
  | dwImage_destroy image_slot
  | dwImageStreamer_release
  | thread_start
  | thread_join
  | dwSensorCamera_readFrameNew dwStatus
  | dwSensorCamera_getImage dwStatus
  | dwImage_copyConvert dwStatus
  | dwImageTransformation_copyFullImage dwStatus
  | dwImageStreamer_producerSend image_slot dwStatus
  | dwImageStreamer_consumerReceive dwStatus
  | dwImage_getProperties dwStatus
  | dwImage_getCPU dwStatus
  | dwImage_getTimestamp
  | dwImageStreamer_consumerReturn
  | dwImageStreamer_producerReturn
  | dwSensorCamera_returnFrame
  | publish Image

subsection \<open>The object\<close>

record SensorCamera =
  m_cameraRun :: bool
  m_shrinkFactor :: f32
  m_camera :: handle
  m_rgbaFrame :: handle
  m_imageResized :: handle
  m_imageTransformationEngine :: handle
  m_streamerNvmediaToCpuProcessed :: handle
  m_cameraThread_joinable :: bool

text \<open>\<open>initialize\<close> stores the two context handles (not modelled: they are only passed on
  to the SDK) and clears the running flag.\<close>

definition initialize :: "SensorCamera \<Rightarrow> SensorCamera" where
  "initialize s = s\<lparr>m_cameraRun := False\<rparr>"

subsection \<open>\<open>start\<close>\<close>

text \<open>
  What the SDK answers during one call of \<open>start\<close>: the status of each call whose status
  the code reads or that creates a resource, and the native image size reported by
  \<open>dwSensorCamera_getImageProperties\<close>. A create call that succeeds stores a non-null
  handle in the member; one that fails leaves the member as it was.
\<close>

record start_env =
  createSensor_status :: dwStatus
  getImageProperties_status :: dwStatus
  native_width :: "32 word"
  native_height :: "32 word"
  create_rgbaFrame_status :: dwStatus
  transformation_initialize_status :: dwStatus
  create_imageResized_status :: dwStatus
  streamer_initialize_status :: dwStatus
  sensor_start_status :: dwStatus

text \<open>Lines 113 to 127: start the capture, spawn the worker, set the flag. The new thread
  is move-assigned to \<open>m_cameraThread\<close>, which calls \<open>std::terminate\<close> when the member still
  holds a joinable thread.\<close>

definition start_capture ::
  "SensorCamera \<Rightarrow> start_env \<Rightarrow> sdk_call list \<Rightarrow> (error + bool) \<times> SensorCamera \<times> sdk_call list" where
  "start_capture s env t =
     (let status = sensor_start_status env;
          t = t @ [dwSensor_start status]
      in if status \<noteq> DW_SUCCESS then (Inr False, s, t @ [dwSAL_releaseSensor])
         else if m_cameraThread_joinable s then (Inl Terminate, s, t @ [thread_start])
         else (Inr True, s\<lparr>m_cameraThread_joinable := True, m_cameraRun := True\<rparr>,
               t @ [thread_start]))"

text \<open>Lines 97 to 111: register the streamer for the (possibly shrunk) image size.\<close>

definition start_streamer ::
  "SensorCamera \<Rightarrow> start_env \<Rightarrow> 32 word \<Rightarrow> 32 word \<Rightarrow> sdk_call list \<Rightarrow>
   (error + bool) \<times> SensorCamera \<times> sdk_call list" where
  "start_streamer s env w h t =
     (let status = streamer_initialize_status env;
          t = t @ [dwImageStreamer_initialize w h status]
      in if status \<noteq> DW_SUCCESS then
           (Inr False, s,
            t @ (if m_imageResized s \<noteq> DW_NULL_HANDLE then [dwImage_destroy ImageResized] else [])
              @ [dwImage_destroy RgbaFrame, dwSAL_releaseSensor])
         else start_capture (s\<lparr>m_streamerNvmediaToCpuProcessed := NonNull\<rparr>) env t)"

text \<open>Lines 79 to 95: the resize stage, only when the shrink factor is greater than one.
  \<open>CHECK_DW_ERROR\<close> throws when the resized buffer cannot be created.\<close>

definition start_resize ::
  "SensorCamera \<Rightarrow> start_env \<Rightarrow> sdk_call list \<Rightarrow> (error + bool) \<times> SensorCamera \<times> sdk_call list" where
  "start_resize s env t =
     (if f32_gt (m_shrinkFactor s) f32_one then
        (let s = (if transformation_initialize_status env = DW_SUCCESS
                  then s\<lparr>m_imageTransformationEngine := NonNull\<rparr> else s);
             t = t @ [dwImageTransformation_initialize (transformation_initialize_status env),
                      dwImageTransformation_setBorderMode,
                      dwImageTransformation_setInterpolationMode]
         in case shrink_dim (native_width env) (m_shrinkFactor s) of
              None \<Rightarrow> (Inl Undefined_behaviour, s, t)
            | Some w \<Rightarrow>
               (case shrink_dim (native_height env) (m_shrinkFactor s) of
                  None \<Rightarrow> (Inl Undefined_behaviour, s, t)
                | Some h \<Rightarrow>
                   (let result = create_imageResized_status env;
                        t = t @ [dwImage_create ImageResized w h result]
                    in if result \<noteq> DW_SUCCESS then (Inl Runtime_error, s, t)
                       else start_streamer (s\<lparr>m_imageResized := NonNull\<rparr>) env w h t)))
      else start_streamer s env (native_width env) (native_height env) t)"

text \<open>Lines 40 to 77, then the rest.\<close>

definition start :: "SensorCamera \<Rightarrow> start_env \<Rightarrow> (error + bool) \<times> SensorCamera \<times> sdk_call list" where
  "start s env =
     (let status = createSensor_status env;
          t = [dwSAL_createSensor status]
      in if status \<noteq> DW_SUCCESS then (Inr False, s, t)
         else
           let s = s\<lparr>m_camera := NonNull\<rparr>;
               status = getImageProperties_status env;
               t = t @ [dwSensorCamera_getImageProperties status]
           in if status \<noteq> DW_SUCCESS then (Inr False, s, t @ [dwSAL_releaseSensor])
              else
                let status = create_rgbaFrame_status env;
                    t = t @ [dwImage_create RgbaFrame (native_width env) (native_height env) status]
                in if status \<noteq> DW_SUCCESS then (Inr False, s, t @ [dwSAL_releaseSensor])
                   else start_resize (s\<lparr>m_rgbaFrame := NonNull\<rparr>) env t)"

subsection \<open>\<open>stop\<close>\<close>

text \<open>Lines 130 to 164. The worker is joined when there is one to join, then every
  handle that is not null is released; the handles themselves are left as they are.\<close>

definition stop :: "SensorCamera \<Rightarrow> bool \<times> SensorCamera \<times> sdk_call list" where
  "stop s =
     (if \<not> m_cameraRun s then (False, s, [])
      else
        let s = s\<lparr>m_cameraRun := False\<rparr>;
            t = (if m_cameraThread_joinable s then [thread_join] else []);
            s = s\<lparr>m_cameraThread_joinable := False\<rparr>;
            t = t @ (if m_streamerNvmediaToCpuProcessed s \<noteq> DW_NULL_HANDLE
                     then [dwImageStreamer_release] else []);
            t = t @ (if m_rgbaFrame s \<noteq> DW_NULL_HANDLE then [dwImage_destroy RgbaFrame] else []);
            t = t @ (if m_imageResized s \<noteq> DW_NULL_HANDLE then [dwImage_destroy ImageResized] else []);
            t = t @ (if m_camera s \<noteq> DW_NULL_HANDLE then [dwSAL_releaseSensor] else [])
        in (True, s, t))"

subsection \<open>\<open>run_camera\<close>: the acquisition loop\<close>

text \<open>
  What the SDK answers during one iteration of the loop: the status of each call, the
  size of the buffer received from the streamer, and the timestamp of the native image
  (\<open>dwTime_t\<close> is the SDK's \<open>int64_t\<close>, in microseconds).
\<close>

record frame_env =
  readFrame_status :: dwStatus
  getImage_status :: dwStatus
  copyConvert_status :: dwStatus
  copyFullImage_status :: dwStatus
  producerSend_status :: dwStatus
  consumerReceive_status :: dwStatus
  getProperties_status :: dwStatus
  prop_width :: "32 word"
  prop_height :: "32 word"
  getCPU_status :: dwStatus
  timestamp :: "64 word"

text \<open>How the body of the loop is left: by reaching its end or a \<open>continue\<close>, by a
  \<open>break\<close>, or by the exception of \<open>CHECK_DW_ERROR\<close>.\<close>

datatype flow = Continue | Break | Throw

text \<open>
  Lines 277 and 278. The division and the remainder are those of C++ on \<open>int64_t\<close>
  (truncating, the remainder with the sign of the dividend); the two fields they are
  stored in are \<open>uint32_t\<close>, so the values are reduced modulo \<open>2^32\<close>.
\<close>

definition stamp_sec :: "64 word \<Rightarrow> 32 word" where
  "stamp_sec t = word_of_int (sint t sdiv 1000000)"

definition stamp_nsec :: "64 word \<Rightarrow> 32 word" where
  "stamp_nsec t = word_of_int ((sint t smod 1000000) * 1000)"

text \<open>
  Lines 256 to 293: the message is built and published. \<open>pair_id\<close> is a local variable of
  the loop body, declared and set to zero here, in every iteration; its increment is the
  last use of it.
\<close>

definition emit_frame :: "frame_env \<Rightarrow> sdk_call list \<Rightarrow> flow \<times> sdk_call list" where
  "emit_frame e t =
     (let status = getProperties_status e;
          t = t @ [dwImage_getProperties status]
      in if status \<noteq> DW_SUCCESS then (Break, t)
         else
           let status = getCPU_status e;
               t = t @ [dwImage_getCPU status]
           in if status \<noteq> DW_SUCCESS then (Break, t)
              else
                let pair_id = (0 :: 32 word);
                    t = t @ [dwImage_getTimestamp];
                    img = \<lparr>header_seq = pair_id,
                           header_stamp_sec = stamp_sec (timestamp e),
                           header_stamp_nsec = stamp_nsec (timestamp e),
                           header_frame_id = ''camera'',
                           encoding = [], height = 0, width = 0, step = 0\<rparr>;
                    pair_id = pair_id + 1;
                    img = fillImage img RGBA8 (prop_height e) (prop_width e) (4 * prop_width e)
                in (Continue,
                    t @ [dwImageStreamer_consumerReturn, dwImageStreamer_producerReturn,
                         dwSensorCamera_returnFrame, publish img]))"

text \<open>
  Lines 197 to 254. In the resize branch the result of
  \<open>dwImageTransformation_copyFullImage\<close> is not stored: the test after it reads
  \<open>status\<close>, which still holds the result of \<open>dwImage_copyConvert\<close>.
\<close>

definition process_frame :: "SensorCamera \<Rightarrow> frame_env \<Rightarrow> sdk_call list \<Rightarrow> flow \<times> sdk_call list" where
  "process_frame s e t =
     (let status = getImage_status e;
          t = t @ [dwSensorCamera_getImage status]
      in if status \<noteq> DW_SUCCESS then (Break, t)
         else
           let status = copyConvert_status e;
               t = t @ [dwImage_copyConvert status]
           in if status \<noteq> DW_SUCCESS then (Break, t)
              else if f32_gt (m_shrinkFactor s) f32_one then
                let t = t @ [dwImageTransformation_copyFullImage (copyFullImage_status e)]
                in if status \<noteq> DW_SUCCESS then (Break, t)
                   else
                     let result = producerSend_status e;
                         t = t @ [dwImageStreamer_producerSend ImageResized result]
                     in if result \<noteq> DW_SUCCESS then (Throw, t)
                        else
                          let status = consumerReceive_status e;
                              t = t @ [dwImageStreamer_consumerReceive status]
                          in if status \<noteq> DW_SUCCESS then (Break, t)
                             else emit_frame e t
              else
                let status = producerSend_status e;
                    t = t @ [dwImageStreamer_producerSend RgbaFrame status]
                in if status \<noteq> DW_SUCCESS then (Break, t)
                   else
                     let status = consumerReceive_status e;
                         t = t @ [dwImageStreamer_consumerReceive status]
                     in if status \<noteq> DW_SUCCESS then (Break, t)
                        else emit_frame e t)"

text \<open>Lines 170 to 195: the read and the dispatch on its status.\<close>

definition iteration :: "SensorCamera \<Rightarrow> frame_env \<Rightarrow> flow \<times> sdk_call list" where
  "iteration s e =
     (let status = readFrame_status e;
          t = [dwSensorCamera_readFrameNew status]
      in if status = DW_END_OF_STREAM then (Break, t)
         else if status = DW_TIME_OUT then (Continue, t)
         else if status = DW_NOT_READY then (Continue, t)
         else if status \<noteq> DW_SUCCESS then (Break, t)
         else process_frame s e t)"

text \<open>
  The loop runs while \<open>m_cameraRun\<close> is set. The flag is cleared by \<open>stop\<close> on another
  thread, so when the loop sees it cleared is an input as well: the list holds one
  environment for every time the loop finds the flag set, and the loop finds it cleared
  once the list is used up. The result says how the loop ended (the flag was cleared, a
  \<open>break\<close>, or an exception that leaves \<open>run_camera\<close>) and gives the trace of the run.
\<close>

datatype loop_exit = Stopped | Broke | Threw

fun run_camera :: "SensorCamera \<Rightarrow> frame_env list \<Rightarrow> loop_exit \<times> sdk_call list" where
  "run_camera s [] = (Stopped, [])"
| "run_camera s (e # es) =
     (case iteration s e of
        (Continue, t) \<Rightarrow> (case run_camera s es of (x, t') \<Rightarrow> (x, t @ t'))
      | (Break, t) \<Rightarrow> (Broke, t)
      | (Throw, t) \<Rightarrow> (Threw, t))"

subsection \<open>Concrete inputs\<close>

text \<open>An object right after \<open>initialize\<close>, every handle still null, with a given shrink
  factor; the floats 1.0 (resizing off) and 2.0.\<close>

definition new_camera :: "f32 \<Rightarrow> SensorCamera" where
  "new_camera factor =
     \<lparr>m_cameraRun = False, m_shrinkFactor = factor, m_camera = DW_NULL_HANDLE,
      m_rgbaFrame = DW_NULL_HANDLE, m_imageResized = DW_NULL_HANDLE,
      m_imageTransformationEngine = DW_NULL_HANDLE,
      m_streamerNvmediaToCpuProcessed = DW_NULL_HANDLE, m_cameraThread_joinable = False\<rparr>"

definition f32_two :: f32 where
  "f32_two = F32_Fin False 2"


text \<open>An SDK that succeeds at every call of \<open>start\<close>, for a 1920 by 1080 sensor.\<close>

definition start_ok :: start_env where
  "start_ok =
     \<lparr>createSensor_status = DW_SUCCESS, getImageProperties_status = DW_SUCCESS,
      native_width = 1920, native_height = 1080, create_rgbaFrame_status = DW_SUCCESS,
      transformation_initialize_status = DW_SUCCESS, create_imageResized_status = DW_SUCCESS,
      streamer_initialize_status = DW_SUCCESS, sensor_start_status = DW_SUCCESS\<rparr>"

text \<open>An SDK that succeeds at every call of one iteration, for a received buffer of the
  given size and a frame taken at the given time.\<close>

definition frame_ok :: "32 word \<Rightarrow> 32 word \<Rightarrow> 64 word \<Rightarrow> frame_env" where
  "frame_ok w h ts =
     \<lparr>readFrame_status = DW_SUCCESS, getImage_status = DW_SUCCESS,
      copyConvert_status = DW_SUCCESS, copyFullImage_status = DW_SUCCESS,
      producerSend_status = DW_SUCCESS, consumerReceive_status = DW_SUCCESS,
      getProperties_status = DW_SUCCESS, prop_width = w, prop_height = h,
      getCPU_status = DW_SUCCESS, timestamp = ts\<rparr>"

subsection \<open>Reading a trace\<close>

text \<open>The messages a trace publishes, in order.\<close>

fun published :: "sdk_call list \<Rightarrow> Image list" where
  "published [] = []"
| "published (publish img # t) = img # published t"
| "published (_ # t) = published t"

text \<open>
  The resources of the SDK that are still allocated at the end of a trace that starts
  with none: a create call that succeeds adds one, a release call removes it.
\<close>

datatype resource = Sensor | Image_buffer image_slot | Transformation_engine | Streamer

definition after_call :: "resource list \<Rightarrow> sdk_call \<Rightarrow> resource list" where
  "after_call rs c =
     (case c of
        dwSAL_createSensor st \<Rightarrow> (if st = DW_SUCCESS then rs @ [Sensor] else rs)
      | dwImage_create slot w h st \<Rightarrow> (if st = DW_SUCCESS then rs @ [Image_buffer slot] else rs)
      | dwImageTransformation_initialize st \<Rightarrow>
          (if st = DW_SUCCESS then rs @ [Transformation_engine] else rs)
      | dwImageStreamer_initialize w h st \<Rightarrow> (if st = DW_SUCCESS then rs @ [Streamer] else rs)
      | dwSAL_releaseSensor \<Rightarrow> remove1 Sensor rs
      | dwImage_destroy slot \<Rightarrow> remove1 (Image_buffer slot) rs
      | dwImageStreamer_release \<Rightarrow> remove1 Streamer rs
      | _ \<Rightarrow> rs)"

definition held :: "sdk_call list \<Rightarrow> resource list" where
  "held t = foldl after_call [] t"

section \<open>Properties\<close>

subsection \<open>Auxiliary facts\<close>

lemmas start_defs = start_def start_resize_def start_streamer_def start_capture_def

lemmas loop_defs = iteration_def process_frame_def emit_frame_def fillImage_def

lemmas input_defs = new_camera_def start_ok_def frame_ok_def f32_one_def f32_two_def

lemmas stamp_defs = stamp_sec_def stamp_nsec_def signed_divide_int_def signed_modulo_int_def

text \<open>An event of a run of the loop is an event of one of its iterations.\<close>

lemma run_camera_event:
  "c \<in> set (snd (run_camera s es)) \<Longrightarrow> \<exists>e \<in> set es. c \<in> set (snd (iteration s e))"
proof (induction es)
  case Nil
  then show ?case by simp
next
  case (Cons e es)
  then show ?case
    by (cases "iteration s e"; cases "fst (iteration s e)"; cases "run_camera s es") auto
qed

text \<open>The one message an iteration can publish.\<close>

lemma iteration_publish:
  "publish img \<in> set (snd (iteration s e)) \<Longrightarrow>
   img = \<lparr>header_seq = 0, header_stamp_sec = stamp_sec (timestamp e),
          header_stamp_nsec = stamp_nsec (timestamp e), header_frame_id = ''camera'',
          encoding = RGBA8, height = prop_height e, width = prop_width e,
          step = 4 * prop_width e\<rparr>"
  by (auto simp: loop_defs Let_def split: if_splits)

text \<open>An iteration in which every call succeeds publishes that message and nothing else;
  the status of the resize transform plays no part.\<close>

lemma iteration_success:
  assumes "readFrame_status e = DW_SUCCESS" "getImage_status e = DW_SUCCESS"
    and "copyConvert_status e = DW_SUCCESS" "producerSend_status e = DW_SUCCESS"
    and "consumerReceive_status e = DW_SUCCESS" "getProperties_status e = DW_SUCCESS"
    and "getCPU_status e = DW_SUCCESS"
  shows "fst (iteration s e) = Continue"
    and "published (snd (iteration s e)) =
      [\<lparr>header_seq = 0, header_stamp_sec = stamp_sec (timestamp e),
        header_stamp_nsec = stamp_nsec (timestamp e), header_frame_id = ''camera'',
        encoding = RGBA8, height = prop_height e, width = prop_width e,
        step = 4 * prop_width e\<rparr>]"
  using assms by (simp_all add: loop_defs Let_def)

lemma uint_word32_of_int:
  "0 \<le> k \<Longrightarrow> k < 4294967296 \<Longrightarrow> uint (word_of_int k :: 32 word) = k"
  by (simp add: uint_word_of_int_eq take_bit_int_eq_self)

lemma stamp_sec_in_range:
  assumes "0 \<le> sint t" "sint t < 4294967296000000"
  shows "uint (stamp_sec t) = sint t div 1000000"
proof -
  have "sint t sdiv 1000000 = sint t div 1000000"
    using assms by (simp add: signed_divide_int_def sgn_if)
  then have eq: "stamp_sec t = word_of_int (sint t div 1000000)"
    by (simp only: stamp_sec_def)
  have "0 \<le> sint t div 1000000" "sint t div 1000000 < 4294967296"
    using assms by auto
  then show ?thesis
    by (simp only: eq uint_word32_of_int)
qed

lemma stamp_nsec_in_range:
  assumes "0 \<le> sint t"
  shows "uint (stamp_nsec t) = (sint t mod 1000000) * 1000"
proof -
  have "sint t smod 1000000 = sint t mod 1000000"
    using assms by (simp add: signed_modulo_int_def sgn_if)
  then have eq: "stamp_nsec t = word_of_int ((sint t mod 1000000) * 1000)"
    by (simp only: stamp_nsec_def)
  have "0 \<le> sint t mod 1000000" "sint t mod 1000000 < 1000000"
    by auto
  then have "0 \<le> (sint t mod 1000000) * 1000" "(sint t mod 1000000) * 1000 < 4294967296"
    by auto
  then show ?thesis
    by (simp only: eq uint_word32_of_int)
qed

subsection \<open>Teardown when \<open>start\<close> fails\<close>

text \<open>
  Where \<open>start\<close> returns false at an earlier step than the start of the capture, nothing
  of what it created is left but possibly the transformation engine, which no path of the
  program releases.
\<close>

lemma start_failure_before_capture:
  assumes "fst (start s env) = Inr False" "sensor_start_status env = DW_SUCCESS"
  shows "set (held (snd (snd (start s env)))) \<subseteq> {Transformation_engine}"
  using assms
  by (auto simp: start_defs held_def after_call_def Let_def split: if_splits option.splits)

text \<open>
  At the start of the capture it is otherwise: whenever \<open>dwSensor_start\<close> fails with
  resizing off, the converted buffer and the streamer are left allocated.
\<close>

lemma start_capture_failure:
  assumes "createSensor_status env = DW_SUCCESS" "getImageProperties_status env = DW_SUCCESS"
    and "create_rgbaFrame_status env = DW_SUCCESS" "streamer_initialize_status env = DW_SUCCESS"
    and "sensor_start_status env \<noteq> DW_SUCCESS" "\<not> f32_gt (m_shrinkFactor s) f32_one"
  shows "fst (start s env) = Inr False"
    and "held (snd (snd (start s env))) = [Image_buffer RgbaFrame, Streamer]"
  using assms by (simp_all add: start_defs held_def after_call_def Let_def)

text \<open>
  Claim C1 asks that a call of \<open>start\<close> that returns false has released every resource it
  allocated, at each of the six steps. It fails at the sixth: with resizing off and every
  call succeeding up to \<open>dwSensor_start\<close>, which fails, \<open>start\<close> returns false after
  releasing the sensor only, and the RGBA buffer and the streamer stay allocated.
\<close>

theorem start_capture_failure_leaks:
  "start (new_camera f32_one) (start_ok\<lparr>sensor_start_status := DW_STATUS_OTHER 1\<rparr>) =
     (Inr False,
      (new_camera f32_one)\<lparr>m_camera := NonNull, m_rgbaFrame := NonNull,
         m_streamerNvmediaToCpuProcessed := NonNull\<rparr>,
      [dwSAL_createSensor DW_SUCCESS, dwSensorCamera_getImageProperties DW_SUCCESS,
       dwImage_create RgbaFrame 1920 1080 DW_SUCCESS,
       dwImageStreamer_initialize 1920 1080 DW_SUCCESS,
       dwSensor_start (DW_STATUS_OTHER 1), dwSAL_releaseSensor])
   \<and> held (snd (snd (start (new_camera f32_one)
                        (start_ok\<lparr>sensor_start_status := DW_STATUS_OTHER 1\<rparr>)))) =
     [Image_buffer RgbaFrame, Streamer]"
  by (simp add: start_defs input_defs held_def after_call_def Let_def)

subsection \<open>The sequence id\<close>

text \<open>Every message of every run carries the sequence id 0.\<close>

lemma published_seq_zero:
  "publish img \<in> set (snd (run_camera s es)) \<Longrightarrow> header_seq img = 0"
  by (auto dest!: run_camera_event iteration_publish)

text \<open>
  Claim C2 asks for the sequence ids 0, 1, ..., N-1 over N successful iterations. The
  counter is a local variable of the loop body, so it is 0 whenever it is read: two
  successful iterations in a row publish two messages with the ids 0 and 0.
\<close>

theorem sequence_id_restarts:
  "map header_seq
     (published (snd (run_camera (new_camera f32_one)
        [frame_ok 1920 1080 1500250, frame_ok 1920 1080 1533583]))) = [0, 0]"
  by (simp add: loop_defs input_defs Let_def)

subsection \<open>The frame handle\<close>

text \<open>The frame is given back only by an iteration that runs to its end.\<close>

lemma returnFrame_only_at_end:
  "dwSensorCamera_returnFrame \<in> set (snd (iteration s e)) \<Longrightarrow> fst (iteration s e) = Continue"
  by (auto simp: loop_defs Let_def split: if_splits)

text \<open>
  Claim C3 asks for exactly one return-frame call per frame read, on the fatal paths as
  well. Every \<open>break\<close> after the read skips the call: when the read succeeds and the
  image cannot be extracted from the frame, the loop ends and the frame was never
  returned.
\<close>

theorem frame_not_returned_on_fatal_error:
  "run_camera (new_camera f32_one)
     [(frame_ok 1920 1080 1500250)\<lparr>getImage_status := DW_STATUS_OTHER 1\<rparr>] =
     (Broke, [dwSensorCamera_readFrameNew DW_SUCCESS, dwSensorCamera_getImage (DW_STATUS_OTHER 1)])
   \<and> count_list
        (snd (run_camera (new_camera f32_one)
           [(frame_ok 1920 1080 1500250)\<lparr>getImage_status := DW_STATUS_OTHER 1\<rparr>]))
        dwSensorCamera_returnFrame = 0"
  by (simp add: loop_defs input_defs Let_def)

subsection \<open>A failing resize\<close>

text \<open>
  Claim C4 asks that a failure of the resize transform ends the loop before anything is
  sent. The status of the transform is never read: with the shrink factor 2.0 and a
  transform that fails, the resized buffer is sent all the same, the message is published
  and the loop goes on.
\<close>

theorem resize_failure_ignored:
  "run_camera (new_camera f32_two)
     [(frame_ok 960 540 1500250)\<lparr>copyFullImage_status := DW_STATUS_OTHER 1\<rparr>] =
     (Stopped,
      [dwSensorCamera_readFrameNew DW_SUCCESS, dwSensorCamera_getImage DW_SUCCESS,
       dwImage_copyConvert DW_SUCCESS, dwImageTransformation_copyFullImage (DW_STATUS_OTHER 1),
       dwImageStreamer_producerSend ImageResized DW_SUCCESS,
       dwImageStreamer_consumerReceive DW_SUCCESS, dwImage_getProperties DW_SUCCESS,
       dwImage_getCPU DW_SUCCESS, dwImage_getTimestamp, dwImageStreamer_consumerReturn,
       dwImageStreamer_producerReturn, dwSensorCamera_returnFrame,
       publish \<lparr>header_seq = 0, header_stamp_sec = 1, header_stamp_nsec = 500250000,
                header_frame_id = ''camera'', encoding = ''rgba8'', height = 540,
                width = 960, step = 3840\<rparr>])"
  by (simp add: loop_defs input_defs stamp_defs RGBA8_def Let_def)

subsection \<open>The dispatch on the status of the read\<close>

text \<open>
  Claim C5. In every iteration the status of the blocking read decides what follows:
  end of stream ends the loop; a timeout and not-ready go on to the next iteration, with
  no other call made in this one (no frame is consumed); any other status that is not
  success ends the loop; success goes on into the pipeline, whose first call is the
  extraction of the image.
\<close>

theorem read_dispatch:
  "(readFrame_status e = DW_END_OF_STREAM \<longrightarrow>
      run_camera s (e # es) = (Broke, [dwSensorCamera_readFrameNew DW_END_OF_STREAM]))
   \<and> (readFrame_status e = DW_TIME_OUT \<longrightarrow>
      run_camera s (e # es) =
        (fst (run_camera s es), dwSensorCamera_readFrameNew DW_TIME_OUT # snd (run_camera s es)))
   \<and> (readFrame_status e = DW_NOT_READY \<longrightarrow>
      run_camera s (e # es) =
        (fst (run_camera s es), dwSensorCamera_readFrameNew DW_NOT_READY # snd (run_camera s es)))
   \<and> (readFrame_status e \<notin> {DW_SUCCESS, DW_END_OF_STREAM, DW_TIME_OUT, DW_NOT_READY} \<longrightarrow>
      run_camera s (e # es) = (Broke, [dwSensorCamera_readFrameNew (readFrame_status e)]))
   \<and> (readFrame_status e = DW_SUCCESS \<longrightarrow>
      iteration s e = process_frame s e [dwSensorCamera_readFrameNew DW_SUCCESS]
      \<and> take 2 (snd (iteration s e)) =
          [dwSensorCamera_readFrameNew DW_SUCCESS, dwSensorCamera_getImage (getImage_status e)])"
  by (simp add: iteration_def process_frame_def emit_frame_def Let_def split: prod.splits)

theorem read_dispatch_witness:
  "run_camera (new_camera f32_one)
     [(frame_ok 1920 1080 0)\<lparr>readFrame_status := DW_END_OF_STREAM\<rparr>, frame_ok 1920 1080 0] =
     (Broke, [dwSensorCamera_readFrameNew DW_END_OF_STREAM])
   \<and> run_camera (new_camera f32_one) [(frame_ok 1920 1080 0)\<lparr>readFrame_status := DW_TIME_OUT\<rparr>] =
     (Stopped, [dwSensorCamera_readFrameNew DW_TIME_OUT])
   \<and> run_camera (new_camera f32_one) [(frame_ok 1920 1080 0)\<lparr>readFrame_status := DW_NOT_READY\<rparr>] =
     (Stopped, [dwSensorCamera_readFrameNew DW_NOT_READY])
   \<and> run_camera (new_camera f32_one)
     [(frame_ok 1920 1080 0)\<lparr>readFrame_status := DW_STATUS_OTHER 1\<rparr>, frame_ok 1920 1080 0] =
     (Broke, [dwSensorCamera_readFrameNew (DW_STATUS_OTHER 1)])
   \<and> take 2 (snd (iteration (new_camera f32_one) (frame_ok 1920 1080 0))) =
     [dwSensorCamera_readFrameNew DW_SUCCESS, dwSensorCamera_getImage DW_SUCCESS]"
  using
    read_dispatch [of "(frame_ok 1920 1080 0)\<lparr>readFrame_status := DW_END_OF_STREAM\<rparr>"
      "new_camera f32_one" "[frame_ok 1920 1080 0]"]
    read_dispatch [of "(frame_ok 1920 1080 0)\<lparr>readFrame_status := DW_TIME_OUT\<rparr>"
      "new_camera f32_one" "[]"]
    read_dispatch [of "(frame_ok 1920 1080 0)\<lparr>readFrame_status := DW_NOT_READY\<rparr>"
      "new_camera f32_one" "[]"]
    read_dispatch [of "(frame_ok 1920 1080 0)\<lparr>readFrame_status := DW_STATUS_OTHER 1\<rparr>"
      "new_camera f32_one" "[frame_ok 1920 1080 0]"]
    read_dispatch [of "frame_ok 1920 1080 0" "new_camera f32_one" "[]"]
  by (simp add: loop_defs input_defs Let_def)

subsection \<open>The timestamp\<close>

text \<open>
  Claim C6, as amended. For every device-clock timestamp \<open>t\<close> in microseconds with
  \<open>0 \<le> t < 2^32 * 1,000,000\<close>, the seconds field of the message an iteration publishes
  is \<open>t div 1,000,000\<close> (rounded down) and its nanoseconds field is
  \<open>(t mod 1,000,000) * 1000\<close>; for \<open>t = 1,500,250\<close> they are 1 and 500,250,000.
\<close>

theorem stamp_conversion:
  assumes "publish img \<in> set (snd (iteration s e))"
    and "0 \<le> sint (timestamp e)" "sint (timestamp e) < 4294967296000000"
  shows "uint (header_stamp_sec img) = sint (timestamp e) div 1000000
       \<and> uint (header_stamp_nsec img) = (sint (timestamp e) mod 1000000) * 1000"
proof -
  have "header_stamp_sec img = stamp_sec (timestamp e)"
    and "header_stamp_nsec img = stamp_nsec (timestamp e)"
    using iteration_publish [OF assms(1)] by simp_all
  then show ?thesis
    using stamp_sec_in_range [OF assms(2,3)] stamp_nsec_in_range [OF assms(2)] by simp
qed

theorem stamp_conversion_witness:
  "publish \<lparr>header_seq = 0, header_stamp_sec = 1, header_stamp_nsec = 500250000,
            header_frame_id = ''camera'', encoding = ''rgba8'', height = 1080,
            width = 1920, step = 7680\<rparr>
     \<in> set (snd (iteration (new_camera f32_one) (frame_ok 1920 1080 1500250)))
   \<and> 0 \<le> sint (timestamp (frame_ok 1920 1080 1500250))
   \<and> sint (timestamp (frame_ok 1920 1080 1500250)) < 4294967296000000
   \<and> uint (1 :: 32 word) = sint (timestamp (frame_ok 1920 1080 1500250)) div 1000000
   \<and> uint (500250000 :: 32 word) =
       (sint (timestamp (frame_ok 1920 1080 1500250)) mod 1000000) * 1000"
  using stamp_conversion
    [of "\<lparr>header_seq = 0, header_stamp_sec = 1, header_stamp_nsec = 500250000,
           header_frame_id = ''camera'', encoding = ''rgba8'', height = 1080,
           width = 1920, step = 7680\<rparr>"
        "new_camera f32_one" "frame_ok 1920 1080 1500250"]
  by (simp add: loop_defs input_defs stamp_defs RGBA8_def Let_def)

text \<open>
  The claim as it was stated, for every \<open>t\<close>, fails where the seconds do not fit the
  32-bit field: for \<open>t = 2^32 * 1,000,000\<close> the message carries 0 seconds, not
  4,294,967,296.
\<close>

theorem stamp_conversion_counterexample:
  "published (snd (iteration (new_camera f32_one) (frame_ok 1920 1080 4294967296000000))) =
     [\<lparr>header_seq = 0, header_stamp_sec = 0, header_stamp_nsec = 0,
       header_frame_id = ''camera'', encoding = ''rgba8'', height = 1080,
       width = 1920, step = 7680\<rparr>]
   \<and> sint (timestamp (frame_ok 1920 1080 4294967296000000)) div 1000000 = 4294967296"
  by (simp add: loop_defs input_defs stamp_defs RGBA8_def Let_def)

subsection \<open>A failing producer-send\<close>

text \<open>
  Claim C9. In every iteration that reaches the producer-send (the read, the extraction
  and the conversion succeeded), a send that fails ends the loop: with resizing on, the
  resized buffer was sent and the loop is left by the exception of \<open>CHECK_DW_ERROR\<close>;
  with resizing off, the converted buffer was sent and the loop is left by \<open>break\<close>. In
  both cases nothing is called after the send and no later iteration runs.
\<close>

theorem producer_send_failure_exits:
  assumes "readFrame_status e = DW_SUCCESS" "getImage_status e = DW_SUCCESS"
    and "copyConvert_status e = DW_SUCCESS" "producerSend_status e \<noteq> DW_SUCCESS"
  shows "run_camera s (e # es) =
    (if f32_gt (m_shrinkFactor s) f32_one then
       (Threw, [dwSensorCamera_readFrameNew DW_SUCCESS, dwSensorCamera_getImage DW_SUCCESS,
                dwImage_copyConvert DW_SUCCESS,
                dwImageTransformation_copyFullImage (copyFullImage_status e),
                dwImageStreamer_producerSend ImageResized (producerSend_status e)])
     else
       (Broke, [dwSensorCamera_readFrameNew DW_SUCCESS, dwSensorCamera_getImage DW_SUCCESS,
                dwImage_copyConvert DW_SUCCESS,
                dwImageStreamer_producerSend RgbaFrame (producerSend_status e)]))"
  using assms by (simp add: iteration_def process_frame_def Let_def)

theorem producer_send_failure_exits_witness:
  "run_camera (new_camera f32_two)
     [(frame_ok 960 540 0)\<lparr>producerSend_status := DW_STATUS_OTHER 1\<rparr>, frame_ok 960 540 0] =
     (Threw, [dwSensorCamera_readFrameNew DW_SUCCESS, dwSensorCamera_getImage DW_SUCCESS,
              dwImage_copyConvert DW_SUCCESS, dwImageTransformation_copyFullImage DW_SUCCESS,
              dwImageStreamer_producerSend ImageResized (DW_STATUS_OTHER 1)])
   \<and> run_camera (new_camera f32_one)
     [(frame_ok 1920 1080 0)\<lparr>producerSend_status := DW_STATUS_OTHER 1\<rparr>, frame_ok 1920 1080 0] =
     (Broke, [dwSensorCamera_readFrameNew DW_SUCCESS, dwSensorCamera_getImage DW_SUCCESS,
              dwImage_copyConvert DW_SUCCESS,
              dwImageStreamer_producerSend RgbaFrame (DW_STATUS_OTHER 1)])"
  using
    producer_send_failure_exits
      [of "(frame_ok 960 540 0)\<lparr>producerSend_status := DW_STATUS_OTHER 1\<rparr>"
          "new_camera f32_two" "[frame_ok 960 540 0]"]
    producer_send_failure_exits
      [of "(frame_ok 1920 1080 0)\<lparr>producerSend_status := DW_STATUS_OTHER 1\<rparr>"
          "new_camera f32_one" "[frame_ok 1920 1080 0]"]
  by (simp add: loop_defs input_defs Let_def)

subsection \<open>The fields of a published message\<close>

text \<open>The row stride \<open>4 * prop.width\<close> is a product of \<open>uint32_t\<close>.\<close>

lemma stride_wraps: "unat (4 * w :: 32 word) = (4 * unat w) mod 2 ^ 32"
  by (simp add: unat_word_ariths)

lemma stride_exact: "unat (w :: 32 word) < 2 ^ 30 \<Longrightarrow> unat (4 * w) = 4 * unat w"
  by (simp add: unat_word_ariths)

text \<open>
  Claim C10, as amended. Every message the loop publishes, whatever the state of the
  object (so whatever the shrink factor), has the frame identifier \<open>camera\<close> and the
  encoding RGBA8, the width and the height of the buffer received in its iteration, and
  the row stride \<open>4 * width\<close> reduced modulo \<open>2^32\<close>, which is \<open>4 * width\<close> whenever the
  width is below \<open>2^30\<close>; and an iteration in which every call succeeds publishes one such
  message.
\<close>

theorem published_message_fields:
  "(publish img \<in> set (snd (run_camera s es)) \<longrightarrow>
      header_frame_id img = ''camera'' \<and> encoding img = RGBA8
      \<and> (\<exists>e \<in> set es. width img = prop_width e \<and> height img = prop_height e)
      \<and> unat (step img) = (4 * unat (width img)) mod 2 ^ 32
      \<and> (unat (width img) < 2 ^ 30 \<longrightarrow> unat (step img) = 4 * unat (width img)))
   \<and> (readFrame_status e = DW_SUCCESS \<and> getImage_status e = DW_SUCCESS
      \<and> copyConvert_status e = DW_SUCCESS \<and> producerSend_status e = DW_SUCCESS
      \<and> consumerReceive_status e = DW_SUCCESS \<and> getProperties_status e = DW_SUCCESS
      \<and> getCPU_status e = DW_SUCCESS \<longrightarrow>
      (\<exists>m. published (snd (iteration s e)) = [m]
         \<and> header_frame_id m = ''camera'' \<and> encoding m = RGBA8
         \<and> width m = prop_width e \<and> height m = prop_height e
         \<and> unat (step m) = (4 * unat (prop_width e)) mod 2 ^ 32
         \<and> (unat (prop_width e) < 2 ^ 30 \<longrightarrow> unat (step m) = 4 * unat (prop_width e))))"
proof (intro conjI impI)
  assume "publish img \<in> set (snd (run_camera s es))"
  then obtain e' where e': "e' \<in> set es" "publish img \<in> set (snd (iteration s e'))"
    using run_camera_event by blast
  note m = iteration_publish [OF e'(2)]
  from m show "header_frame_id img = ''camera''" by simp
  from m show "encoding img = RGBA8" by simp
  from m e'(1) show "\<exists>e \<in> set es. width img = prop_width e \<and> height img = prop_height e"
    by auto
  from m have sw: "step img = 4 * width img" by simp
  show "unat (step img) = (4 * unat (width img)) mod 2 ^ 32"
    by (simp only: sw stride_wraps)
  show "unat (step img) = 4 * unat (width img)" if "unat (width img) < 2 ^ 30"
    using that by (simp only: sw stride_exact)
next
  assume ok: "readFrame_status e = DW_SUCCESS \<and> getImage_status e = DW_SUCCESS
      \<and> copyConvert_status e = DW_SUCCESS \<and> producerSend_status e = DW_SUCCESS
      \<and> consumerReceive_status e = DW_SUCCESS \<and> getProperties_status e = DW_SUCCESS
      \<and> getCPU_status e = DW_SUCCESS"
  have "unat (4 * prop_width e) = (4 * unat (prop_width e)) mod 2 ^ 32"
    by (rule stride_wraps)
  moreover have "unat (4 * prop_width e) = 4 * unat (prop_width e)"
    if "unat (prop_width e) < 2 ^ 30"
    using that by (rule stride_exact)
  ultimately show "\<exists>m. published (snd (iteration s e)) = [m]
         \<and> header_frame_id m = ''camera'' \<and> encoding m = RGBA8
         \<and> width m = prop_width e \<and> height m = prop_height e
         \<and> unat (step m) = (4 * unat (prop_width e)) mod 2 ^ 32
         \<and> (unat (prop_width e) < 2 ^ 30 \<longrightarrow> unat (step m) = 4 * unat (prop_width e))"
    using ok by (simp add: iteration_success(2))
qed

theorem published_message_fields_witness:
  "publish \<lparr>header_seq = 0, header_stamp_sec = 1, header_stamp_nsec = 500250000,
            header_frame_id = ''camera'', encoding = ''rgba8'', height = 540,
            width = 960, step = 3840\<rparr>
     \<in> set (snd (run_camera (new_camera f32_two) [frame_ok 960 540 1500250]))
   \<and> unat (960 :: 32 word) < 2 ^ 30
   \<and> unat (3840 :: 32 word) = 4 * unat (960 :: 32 word)
   \<and> published (snd (iteration (new_camera f32_two) (frame_ok 960 540 1500250))) =
     [\<lparr>header_seq = 0, header_stamp_sec = 1, header_stamp_nsec = 500250000,
       header_frame_id = ''camera'', encoding = ''rgba8'', height = 540,
       width = 960, step = 3840\<rparr>]"
  using published_message_fields
    [of "\<lparr>header_seq = 0, header_stamp_sec = 1, header_stamp_nsec = 500250000,
           header_frame_id = ''camera'', encoding = ''rgba8'', height = 540,
           width = 960, step = 3840\<rparr>"
        "new_camera f32_two" "[frame_ok 960 540 1500250]" "frame_ok 960 540 1500250"]
  by (simp add: loop_defs input_defs stamp_defs RGBA8_def Let_def)

text \<open>
  The claim as it was stated, with the row stride \<open>4 * width\<close>, fails where the product
  does not fit 32 bits: for a received buffer of width \<open>2^30 + 1\<close> the message carries the
  stride 4.
\<close>

theorem published_message_fields_counterexample:
  "published (snd (iteration (new_camera f32_one) (frame_ok 1073741825 1 0))) =
     [\<lparr>header_seq = 0, header_stamp_sec = 0, header_stamp_nsec = 0,
       header_frame_id = ''camera'', encoding = ''rgba8'', height = 1,
       width = 1073741825, step = 4\<rparr>]
   \<and> unat (4 :: 32 word) \<noteq> 4 * unat (1073741825 :: 32 word)"
  by (simp add: loop_defs input_defs stamp_defs RGBA8_def Let_def)

subsection \<open>The float arithmetic of the shrunk size\<close>

text \<open>Bounds on the exponent.\<close>

lemma bitlen_le: "n < 2 ^ k \<Longrightarrow> bitlen n \<le> k"
proof (induction k arbitrary: n)
  case 0
  then show ?case by (simp add: bitlen.simps)
next
  case (Suc k)
  have "n div 2 < 2 ^ k" using Suc.prems by auto
  then have "bitlen (n div 2) \<le> k" by (rule Suc.IH)
  then show ?case by (subst bitlen.simps) simp
qed

lemma bitlen_pos: "0 < n \<Longrightarrow> 0 < bitlen n"
  by (subst bitlen.simps) simp

lemma ilog2_le_31:
  assumes "0 < x" "x < 2 ^ 32"
  shows "ilog2 x \<le> 31"
proof (cases "1 \<le> x")
  case True
  define z where "z = \<lfloor>x\<rfloor>"
  have "z < 4294967296"
    unfolding z_def using assms(2) floor_less_iff [of x 4294967296] by simp
  then have "nat z < 2 ^ 32" by simp
  then have "nat \<lfloor>x\<rfloor> < 2 ^ 32" by (simp only: z_def)
  then have "bitlen (nat \<lfloor>x\<rfloor>) \<le> 32" by (rule bitlen_le)
  then show ?thesis using True by (simp add: ilog2_def)
next
  case False
  then show ?thesis by (simp add: ilog2_def)
qed

lemma ilog2_nonneg: "1 \<le> x \<Longrightarrow> 0 \<le> ilog2 x"
proof -
  assume x: "1 \<le> x"
  then have "1 \<le> \<lfloor>x\<rfloor>" by (simp add: le_floor_iff)
  then have "0 < nat \<lfloor>x\<rfloor>" by simp
  then have "0 < bitlen (nat \<lfloor>x\<rfloor>)" by (rule bitlen_pos)
  then show ?thesis using x by (simp add: ilog2_def)
qed

text \<open>Powers of two with an integer exponent.\<close>

lemma pow2_powi: "pow2 k = 2 powi k"
  by (simp add: pow2_def power_int_def field_simps)

lemma pow2_pos: "0 < pow2 k"
  by (simp add: pow2_def)

lemma pow2_add: "pow2 (a + b) = pow2 a * pow2 b"
  by (simp add: pow2_powi power_int_add)

lemma pow2_nat: "0 \<le> k \<Longrightarrow> pow2 k = of_int (2 ^ nat k)"
  by (simp add: pow2_def)

text \<open>Rounding to an integer does not pass an integer bound.\<close>

lemma round_half_even_le: "r < of_int k \<Longrightarrow> round_half_even r \<le> k"
proof -
  assume "r < of_int k"
  then have "\<lfloor>r\<rfloor> < k" by (simp add: floor_less_iff)
  then show ?thesis by (simp add: round_half_even_def Let_def)
qed

lemma round_half_even_nonneg: "0 \<le> r \<Longrightarrow> 0 \<le> round_half_even r"
proof -
  assume "0 \<le> r"
  then have "0 \<le> \<lfloor>r\<rfloor>" by simp
  then show ?thesis by (simp add: round_half_even_def Let_def)
qed

text \<open>Rounding to binary32 does not pass a bound that is a multiple of \<open>2^8\<close>, the unit in
  the last place of the floats from \<open>2^31\<close> to \<open>2^32\<close>.\<close>

lemma f32_round_bound:
  assumes "0 < x" "x < of_int c * 2 ^ 8" "ilog2 x \<le> 31" "c \<le> 2 ^ 24"
  shows "\<exists>y. f32_round sign x = F32_Fin sign y \<and> 0 \<le> y \<and> y \<le> of_int c * 2 ^ 8"
proof -
  define q where "q = max (ilog2 x - 23) (- 149)"
  define y where "y = of_int (round_half_even (x / pow2 q)) * pow2 q"
  have q8: "q \<le> 8" using assms(3) by (simp add: q_def)
  have "pow2 8 = pow2 (8 - q) * pow2 q"
    by (simp add: pow2_add [symmetric])
  then have p8: "(2::rat) ^ 8 = of_int (2 ^ nat (8 - q)) * pow2 q"
    using q8 by (simp add: pow2_nat)
  define k where "k = c * 2 ^ nat (8 - q)"
  have kq: "of_int c * 2 ^ 8 = of_int k * pow2 q"
    by (simp only: p8 k_def of_int_mult mult.assoc)
  have "x < of_int k * pow2 q"
    using assms(2) by (simp only: kq)
  then have "x / pow2 q < of_int k"
    using pow2_pos [of q] by (simp add: pos_divide_less_eq)
  then have "round_half_even (x / pow2 q) \<le> k" by (rule round_half_even_le)
  then have "(of_int (round_half_even (x / pow2 q)) :: rat) \<le> of_int k" by simp
  then have "y \<le> of_int k * pow2 q"
    unfolding y_def using pow2_pos [of q] by (simp add: mult_right_mono)
  then have ub: "y \<le> of_int c * 2 ^ 8" by (simp only: kq)
  have "0 \<le> x / pow2 q" using assms(1) pow2_pos [of q] by simp
  then have "0 \<le> round_half_even (x / pow2 q)" by (rule round_half_even_nonneg)
  then have lb: "0 \<le> y" unfolding y_def using pow2_pos [of q] by simp
  have "(of_int c :: rat) \<le> 2 ^ 24" using assms(4) by (metis of_int_le_iff of_int_numeral of_int_power)
  then have "(of_int c :: rat) * 2 ^ 8 \<le> 2 ^ 24 * 2 ^ 8" by (simp add: mult_right_mono)
  then have "y < 2 ^ 128" using ub by simp
  then have "f32_round sign x = F32_Fin sign y"
    using assms(1) by (simp add: f32_round_def Let_def q_def [symmetric] y_def [symmetric])
  then show ?thesis using lb ub by blast
qed


text \<open>The least float above 1.0 is \<open>1 + 2^-23\<close>.\<close>

lemma f32_valid_gt_one:
  assumes "f32_valid (F32_Fin sign x)" "f32_gt (F32_Fin sign x) f32_one"
  shows "\<not> sign \<and> 8388609 / 8388608 \<le> x"
proof -
  have x0: "0 \<le> x" and rx: "f32_round sign x = F32_Fin sign x"
    using assms(1) by simp_all
  have s: "\<not> sign" and x1: "1 < x"
    using assms(2) x0 by (auto simp: f32_one_def split: if_splits)
  define q where "q = max (ilog2 x - 23) (- 149)"
  define n where "n = round_half_even (x / pow2 q)"
  have "0 \<le> ilog2 x" using x1 by (simp add: ilog2_nonneg)
  then have q23: "0 \<le> q + 23" by (simp add: q_def)
  have "x = of_int n * pow2 q"
    using rx x1 by (simp add: f32_round_def Let_def q_def [symmetric] n_def [symmetric] split: if_splits)
  then have "x * pow2 23 = of_int n * pow2 (q + 23)"
    by (simp add: pow2_add)
  also have "\<dots> = of_int (n * 2 ^ nat (q + 23))"
    using q23 by (simp add: pow2_nat)
  finally have m: "x * 8388608 = of_int (n * 2 ^ nat (q + 23))"
    by (simp add: pow2_def)
  have "(8388608 :: rat) < x * 8388608" using x1 by simp
  then have "(of_int 8388608 :: rat) < of_int (n * 2 ^ nat (q + 23))" by (simp only: m of_int_numeral)
  then have "8388608 < n * 2 ^ nat (q + 23)" by (simp only: of_int_less_iff)
  then have "8388609 \<le> n * 2 ^ nat (q + 23)" by simp
  then have "(of_int 8388609 :: rat) \<le> of_int (n * 2 ^ nat (q + 23))" by (simp only: of_int_le_iff)
  then have "8388609 \<le> x * 8388608" by (simp only: m of_int_numeral)
  then show ?thesis using s by simp
qed

text \<open>A \<open>uint32_t\<close> converts to a finite float of at most \<open>2^32\<close>.\<close>

lemma u32_to_f32_bound:
  "\<exists>y. u32_to_f32 w = F32_Fin False y \<and> 0 \<le> y \<and> y \<le> 4294967296"
proof (cases "unat w = 0")
  case True
  then show ?thesis by (simp add: u32_to_f32_def f32_round_def)
next
  case False
  define x :: rat where "x = of_nat (unat w)"
  have "unat w < 4294967296" using unsigned_less [of w, where ?'a = nat] by simp
  then have x32: "x < 4294967296" unfolding x_def by (metis of_nat_less_iff of_nat_numeral)
  have "0 < unat w" using False by simp
  then have x0: "0 < x" by (simp only: x_def of_nat_0_less_iff)
  have "ilog2 x \<le> 31" using x0 x32 by (simp add: ilog2_le_31)
  moreover have "x < of_int 16777216 * 2 ^ 8" using x32 by simp
  ultimately obtain y where "f32_round False x = F32_Fin False y" "0 \<le> y" "y \<le> of_int 16777216 * 2 ^ 8"
    using f32_round_bound [OF x0, of 16777216 False] by auto
  moreover have "u32_to_f32 w = f32_round False x"
    by (simp only: u32_to_f32_def x_def)
  ultimately show ?thesis by simp
qed

text \<open>
  So \<open>d /= factor\<close> is defined whenever the factor is a float greater than 1.0: the
  quotient is below \<open>2^32\<close> and the conversion back to \<open>uint32_t\<close> is not undefined
  behaviour.
\<close>

lemma shrink_dim_defined:
  assumes "f32_valid f" "f32_gt f f32_one"
  shows "\<exists>n. shrink_dim w f = Some n"
proof -
  obtain y where y: "u32_to_f32 w = F32_Fin False y" "0 \<le> y" "y \<le> 4294967296"
    using u32_to_f32_bound by blast
  show ?thesis
  proof (cases f)
    case F32_NaN
    then show ?thesis using assms(2) by (simp add: f32_one_def)
  next
    case (F32_Inf sign)
    then show ?thesis using assms(2) y by (simp add: f32_one_def shrink_dim_def)
  next
    case (F32_Fin sign q)
    then have sq: "\<not> sign" "8388609 / 8388608 \<le> q"
      using f32_valid_gt_one assms by blast+
    show ?thesis
    proof (cases "y = 0")
      case True
      then show ?thesis using y sq F32_Fin by (simp add: shrink_dim_def f32_round_def)
    next
      case False
      define x where "x = y / q"
      have q0: "0 < q" using sq(2) by simp
      have x0: "0 < x" using False y(2) q0 by (simp add: x_def)
      have "y * 8388608 \<le> 4294967296 * 8388608" using y(3) by simp
      also have "\<dots> < (16777215 * 2 ^ 8) * 8388609" by simp
      also have "\<dots> \<le> (16777215 * 2 ^ 8) * (q * 8388608)"
        using sq(2) by simp
      finally have "y < (16777215 * 2 ^ 8) * q" by simp
      then have xb: "x < of_int 16777215 * 2 ^ 8"
        using q0 by (simp add: x_def pos_divide_less_eq)
      then have "x < 2 ^ 32" by simp
      then have "ilog2 x \<le> 31" using x0 by (simp add: ilog2_le_31)
      then obtain z where z: "f32_round False x = F32_Fin False z" "0 \<le> z"
          "z \<le> of_int 16777215 * 2 ^ 8"
        using f32_round_bound [OF x0 xb, of False] by auto
      have "f32_div (u32_to_f32 w) f = F32_Fin False z"
        using y(1) F32_Fin sq(1) q0 z(1) by (simp add: x_def)
      then show ?thesis using z(3) by (simp add: shrink_dim_def)
    qed
  qed
qed












subsection \<open>The resize stage\<close>









text \<open>\<open>start\<close> never runs into the undefined conversion.\<close>

lemma start_defined:
  assumes "f32_valid (m_shrinkFactor s)"
  shows "fst (start s env) \<noteq> Inl Undefined_behaviour"
proof (cases "f32_gt (m_shrinkFactor s) f32_one")
  case True
  obtain w h where "shrink_dim (native_width env) (m_shrinkFactor s) = Some w"
    and "shrink_dim (native_height env) (m_shrinkFactor s) = Some h"
    using shrink_dim_defined [OF assms True] by blast
  then show ?thesis using True by (simp add: start_defs Let_def)
next
  case False
  then show ?thesis by (simp add: start_defs Let_def)
qed




subsection \<open>\<open>stop\<close> on an instance that is not running\<close>

text \<open>
  Claim C8. Calling \<open>stop\<close> when the instance is not running returns false, leaves the
  object as it was and makes no call into the SDK (no resource is touched); and whatever
  the state, a second \<open>stop\<close> right after a first one returns false. In the example the
  first \<open>stop\<close> follows a successful \<open>start\<close> and returns true, the second returns false.
\<close>

theorem stop_not_running:
  "(\<not> m_cameraRun s \<longrightarrow> stop s = (False, s, []))
   \<and> fst (stop (fst (snd (stop s)))) = False"
  by (simp add: stop_def Let_def)

theorem stop_not_running_witness:
  "\<not> m_cameraRun (new_camera f32_one)
   \<and> stop (new_camera f32_one) = (False, new_camera f32_one, [])
   \<and> fst (stop (fst (snd (start (new_camera f32_one) start_ok)))) = True
   \<and> fst (stop (fst (snd (stop (fst (snd (start (new_camera f32_one) start_ok))))))) = False"
  using stop_not_running [of "new_camera f32_one"]
    stop_not_running [of "fst (snd (start (new_camera f32_one) start_ok))"]
  by (simp add: start_defs stop_def input_defs Let_def)

end
